theory Spec2Isabelle
  imports Main "HOL-Library.Word"
begin

section \<open>Python values, exceptions and the library boundary\<close>

text \<open>
  The job-dispatch client (\<^verbatim>\<open>src/client/client.py\<close>, \<^verbatim>\<open>src/client/jobs.py\<close>,
  \<^verbatim>\<open>src/client/helpers.py\<close>) is embedded as pure functions.  Python values that the
  client touches are the constructors of \<open>pyval\<close>; an exception is a value of \<open>exn\<close>
  and a call that may raise returns \<open>exn + 'a\<close> with \<open>Inl\<close> for the raise.
\<close>

type_synonym bytes = "8 word list"

datatype image = Image bytes

datatype ndarray = NdArray "nat list"

datatype pyval =
    PNone
  | PBool bool
  | PInt int
  | PStr string
  | PBytes bytes
  | PArray ndarray
  | PImage image
  | PList "pyval list"
  | PDict "(string \<times> pyval) list"

datatype exn =
    AssertionError string
  | ValueError string
  | AttributeError string
  | TypeError string
  | RequestException string
  | OtherException string

text \<open>
  The third-party calls the client makes are parameters: the file system and Pillow
  (\<^verbatim>\<open>os.path.isfile\<close>, \<^verbatim>\<open>Image.open\<close>, \<^verbatim>\<open>Image.save(format="PNG")\<close>,
  \<^verbatim>\<open>Image.fromarray(a.astype("uint8"))\<close>, \<^verbatim>\<open>np.array\<close>), \<^verbatim>\<open>base64.b64decode\<close> and
  \<^verbatim>\<open>json.dumps\<close>.  Each may raise.
\<close>

record libs =
  isfile :: "string \<Rightarrow> bool"
  image_open_path :: "string \<Rightarrow> exn + image"
  image_open_bytes :: "bytes \<Rightarrow> exn + image"
  save_png :: "image \<Rightarrow> exn + bytes"
  fromarray_uint8 :: "ndarray \<Rightarrow> exn + image"
  np_array :: "image \<Rightarrow> exn + ndarray"
  b64decode :: "pyval \<Rightarrow> exn + bytes"
  json_dumps :: "pyval \<Rightarrow> exn + string"

text \<open>\<^verbatim>\<open>str(type(v))\<close>, as it appears in the message of \<^verbatim>\<open>to_bytes\<close>.\<close>

fun type_name :: "pyval \<Rightarrow> string" where
  "type_name PNone = ''NoneType''"
| "type_name (PBool _) = ''bool''"
| "type_name (PInt _) = ''int''"
| "type_name (PStr _) = ''str''"
| "type_name (PBytes _) = ''bytes''"
| "type_name (PArray _) = ''numpy.ndarray''"
| "type_name (PImage _) = ''PIL.Image.Image''"
| "type_name (PList _) = ''list''"
| "type_name (PDict _) = ''dict''"

definition quoted :: "string \<Rightarrow> string" where
  "quoted s = [CHR 0x27] @ s @ [CHR 0x27]"

definition type_repr :: "pyval \<Rightarrow> string" where
  "type_repr v = ''<class '' @ quoted (type_name v) @ ''>''"

text \<open>\<^verbatim>\<open>str.lower\<close> on ASCII letters.\<close>

definition lower_char :: "char \<Rightarrow> char" where
  "lower_char c =
     (let n = (of_char c :: nat) in if 65 \<le> n \<and> n \<le> 90 then char_of (n + 32) else c)"

definition lower :: "string \<Rightarrow> string" where
  "lower s = map lower_char s"

text \<open>
  \<^verbatim>\<open>d.get(key, default)\<close>: only a dict has the method; on any other value the attribute
  lookup raises \<^verbatim>\<open>AttributeError\<close>.
\<close>

definition no_attribute :: "pyval \<Rightarrow> string \<Rightarrow> exn" where
  "no_attribute v name =
     AttributeError (quoted (type_name v) @ '' object has no attribute '' @ quoted name)"

definition py_get :: "pyval \<Rightarrow> string \<Rightarrow> pyval \<Rightarrow> exn + pyval" where
  "py_get d key dflt =
     (case d of
        PDict kvs \<Rightarrow> Inr (case map_of kvs key of Some v \<Rightarrow> v | None \<Rightarrow> dflt)
      | _ \<Rightarrow> Inl (no_attribute d ''get''))"

section \<open>\<^verbatim>\<open>helpers.py\<close>: ImageConverter\<close>

definition to_bytes :: "libs \<Rightarrow> pyval \<Rightarrow> exn + bytes" where
  "to_bytes L image_input =
     (case image_input of
        PBytes b \<Rightarrow> Inr b
      | PStr s \<Rightarrow>
          (if isfile L s then
             (case image_open_path L s of
                Inl e \<Rightarrow> Inl e
              | Inr img \<Rightarrow> save_png L img)
           else
             (case b64decode L (PStr s) of
                Inl e \<Rightarrow> Inl (ValueError
                  ''String input must be either a valid file path or base64 encoded image'')
              | Inr b \<Rightarrow> Inr b))
      | PArray a \<Rightarrow>
          (case fromarray_uint8 L a of
             Inl e \<Rightarrow> Inl e
           | Inr img \<Rightarrow> save_png L img)
      | PImage img \<Rightarrow> save_png L img
      | _ \<Rightarrow> Inl (ValueError (''Unsupported input type: '' @ type_repr image_input)))"

definition from_bytes :: "libs \<Rightarrow> bytes \<Rightarrow> string \<Rightarrow> exn + pyval" where
  "from_bytes L image_bytes target_type =
     (if lower target_type = ''bytes'' then Inr (PBytes image_bytes)
      else
        (case image_open_bytes L image_bytes of
           Inl e \<Rightarrow> Inl e
         | Inr img \<Rightarrow>
             (if lower target_type = ''pil'' then Inr (PImage img)
              else if lower target_type = ''numpy'' then
                (case np_array L img of Inl e \<Rightarrow> Inl e | Inr a \<Rightarrow> Inr (PArray a))
              else Inl (ValueError (''Unsupported target type: '' @ target_type)))))"

section \<open>\<^verbatim>\<open>jobs.py\<close>: the six job classes\<close>

text \<open>
  \<^verbatim>\<open>input_data\<close> is a dict from field name to value: a map, where \<open>input_data k = None\<close>
  is a missing key and \<open>input_data k = Some PNone\<close> a key bound to \<^verbatim>\<open>None\<close>.
  \<^verbatim>\<open>files\<close> is a dict from part name to \<^verbatim>\<open>(filename, content, mime)\<close> or \<^verbatim>\<open>None\<close>;
  \<^verbatim>\<open>form_data\<close> is a dict from field name to string or \<^verbatim>\<open>None\<close>.  Both keep
  insertion order, so they are association lists.
\<close>

type_synonym input_data = "string \<rightharpoonup> pyval"
type_synonym file_part = "string \<times> pyval \<times> string"
type_synonym files = "(string \<times> file_part) list option"
type_synonym form_data = "(string \<times> string) list option"
type_synonym payload = "files \<times> form_data"

definition dict_get :: "input_data \<Rightarrow> string \<Rightarrow> pyval" where
  "dict_get input_data key = (case input_data key of Some v \<Rightarrow> v | None \<Rightarrow> PNone)"

definition FaceJob_process_inputs :: "libs \<Rightarrow> input_data \<Rightarrow> exn + payload" where
  "FaceJob_process_inputs L input_data =
     (if input_data ''model_img'' = None then
        Inl (AssertionError ''Missing 'model_img' key in input data'')
      else if input_data ''generation_type'' = None then
        Inl (AssertionError ''Missing 'generation_type' key in input data'')
      else if input_data ''inpaint_params'' = None then
        Inl (AssertionError ''Missing 'inpaint_params' key in input data'')
      else if input_data ''prompt'' = None then
        Inl (AssertionError ''Missing 'prompt' key in input data'')
      else
        (let model_img = dict_get input_data ''model_img'';
             inpaint_params = dict_get input_data ''inpaint_params'';
             generation_type = dict_get input_data ''generation_type'';
             prompt = dict_get input_data ''prompt''
         in case to_bytes L model_img of
              Inl e \<Rightarrow> Inl e
            | Inr model_bytes \<Rightarrow>
                (let model_file = (''model.png'', PBytes model_bytes, ''image/png'');
                     files = [(''model_img_buffer'', model_file)];
                     generation_data = PDict [(''inpaint_params'', inpaint_params),
                                              (''generation_type'', generation_type),
                                              (''prompt'', prompt)]
                 in case json_dumps L generation_data of
                      Inl e \<Rightarrow> Inl e
                    | Inr s \<Rightarrow> Inr (Some files, Some [(''generation_data'', s)]))))"

definition MaskJob_process_inputs :: "libs \<Rightarrow> input_data \<Rightarrow> exn + payload" where
  "MaskJob_process_inputs L input_data =
     (if input_data ''category'' = None then
        Inl (AssertionError ''Missing 'category' key in input_data'')
      else if input_data ''model_img'' = None then
        Inl (AssertionError ''Missing 'model_img' key in input_data'')
      else
        (let model_img = dict_get input_data ''model_img'';
             category = dict_get input_data ''category''
         in case to_bytes L model_img of
              Inl e \<Rightarrow> Inl e
            | Inr model_bytes \<Rightarrow>
                (let model_file = (''model.png'', PBytes model_bytes, ''image/png'');
                     files = [(''model_img_buffer'', model_file)];
                     generation_data = PDict [(''category'', category)]
                 in case json_dumps L generation_data of
                      Inl e \<Rightarrow> Inl e
                    | Inr s \<Rightarrow> Inr (Some files, Some [(''generation_data'', s)]))))"

definition TryOnJob_process_inputs :: "libs \<Rightarrow> input_data \<Rightarrow> exn + payload" where
  "TryOnJob_process_inputs L input_data =
     (if input_data ''category'' = None then
        Inl (AssertionError ''Missing 'category' key in input_data'')
      else if input_data ''model_img'' = None then
        Inl (AssertionError ''Missing 'model_img' key in input_data'')
      else if input_data ''cloth_img'' = None then
        Inl (AssertionError ''Missing 'cloth_img' key in input_data'')
      else if input_data ''mask_img'' = None then
        Inl (AssertionError ''Missing 'mask_img' key in input_data'')
      else
        (let model_img = dict_get input_data ''model_img'';
             cloth_img = dict_get input_data ''cloth_img'';
             mask_img = dict_get input_data ''mask_img'';
             category = dict_get input_data ''category''
         in case to_bytes L model_img of
              Inl e \<Rightarrow> Inl e
            | Inr model_bytes \<Rightarrow>
                (let model_file = (''model.png'', PBytes model_bytes, ''image/png'')
                 in case to_bytes L cloth_img of
                      Inl e \<Rightarrow> Inl e
                    | Inr cloth_bytes \<Rightarrow>
                        (let cloth_file = (''cloth.png'', PBytes cloth_bytes, ''image/png'')
                         in case (if mask_img \<noteq> PNone
                                  then (case to_bytes L mask_img of
                                          Inl e \<Rightarrow> Inl e
                                        | Inr mask_bytes \<Rightarrow> Inr (PBytes mask_bytes))
                                  else Inr mask_img) of
                              Inl e \<Rightarrow> Inl e
                            | Inr mask_content \<Rightarrow>
                                (let mask_file = (''mask.png'', mask_content, ''image/png'');
                                     files = [(''model_img_buffer'', model_file),
                                              (''cloth_img_buffer'', cloth_file),
                                              (''mask_img_buffer'', mask_file)];
                                     generation_data = PDict [(''category'', category)]
                                 in case json_dumps L generation_data of
                                      Inl e \<Rightarrow> Inl e
                                    | Inr s \<Rightarrow>
                                        Inr (Some files, Some [(''generation_data'', s)]))))))"

definition HandsFixJob_process_inputs :: "libs \<Rightarrow> input_data \<Rightarrow> exn + payload" where
  "HandsFixJob_process_inputs L input_data =
     (if input_data ''model_img'' = None then
        Inl (AssertionError ''Missing 'model_img' key in input_data'')
      else
        (let model_img = dict_get input_data ''model_img''
         in case to_bytes L model_img of
              Inl e \<Rightarrow> Inl e
            | Inr model_bytes \<Rightarrow>
                (let model_file = (''model.png'', PBytes model_bytes, ''image/png'');
                     files = [(''model_img_buffer'', model_file)]
                 in Inr (Some files, None))))"

definition RetouchJob_process_inputs :: "libs \<Rightarrow> input_data \<Rightarrow> exn + payload" where
  "RetouchJob_process_inputs L input_data =
     (if input_data ''model_img'' = None then
        Inl (AssertionError ''Missing 'model_img' key in input_data'')
      else
        (let model_img = dict_get input_data ''model_img''
         in case to_bytes L model_img of
              Inl e \<Rightarrow> Inl e
            | Inr model_bytes \<Rightarrow>
                (let model_file = (''model.png'', PBytes model_bytes, ''image/png'');
                     files = [(''model_img_buffer'', model_file)];
                     generation_data = PDict [(''seed'', dict_get input_data ''seed'')]
                 in case json_dumps L generation_data of
                      Inl e \<Rightarrow> Inl e
                    | Inr s \<Rightarrow> Inr (Some files, Some [(''generation_data'', s)]))))"

definition ModelGenerationJob_process_inputs :: "libs \<Rightarrow> input_data \<Rightarrow> exn + payload" where
  "ModelGenerationJob_process_inputs L input_data =
     (if input_data ''prompt'' = None then
        Inl (AssertionError ''Missing 'prompt' key in input data'')
      else
        (let prompt = dict_get input_data ''prompt'';
             seed = dict_get input_data ''seed'';
             generation_data = PDict [(''prompt'', prompt), (''seed'', seed)]
         in case json_dumps L generation_data of
              Inl e \<Rightarrow> Inl e
            | Inr s \<Rightarrow> Inr (None, Some [(''generation_data'', s)])))"

text \<open>
  A response as the client reads it: \<^verbatim>\<open>response.status_code\<close>, \<^verbatim>\<open>response.text\<close> and
  the outcome of \<^verbatim>\<open>response.json()\<close> (which raises when the body is not JSON).
\<close>

record response =
  status_code :: int
  resp_text :: string
  json :: "exn + pyval"

text \<open>
  \<^verbatim>\<open>process_outputs\<close> has the same body in all six classes: parse the body, read
  \<^verbatim>\<open>result\<close>, base64-decode it, open the bytes as a PIL image.
\<close>

definition decode_response :: "libs \<Rightarrow> response \<Rightarrow> exn + pyval" where
  "decode_response L resp =
     (case json resp of
        Inl e \<Rightarrow> Inl e
      | Inr result_data \<Rightarrow>
          (case py_get result_data ''result'' PNone of
             Inl e \<Rightarrow> Inl e
           | Inr result \<Rightarrow>
               (case b64decode L result of
                  Inl e \<Rightarrow> Inl e
                | Inr decoded_result \<Rightarrow> from_bytes L decoded_result ''PIL'')))"

datatype job_class =
  FaceJob | HandsFixJob | MaskJob | ModelGenerationJob | RetouchJob | TryOnJob

fun process_inputs :: "libs \<Rightarrow> job_class \<Rightarrow> input_data \<Rightarrow> exn + payload" where
  "process_inputs L FaceJob = FaceJob_process_inputs L"
| "process_inputs L HandsFixJob = HandsFixJob_process_inputs L"
| "process_inputs L MaskJob = MaskJob_process_inputs L"
| "process_inputs L ModelGenerationJob = ModelGenerationJob_process_inputs L"
| "process_inputs L RetouchJob = RetouchJob_process_inputs L"
| "process_inputs L TryOnJob = TryOnJob_process_inputs L"

fun process_outputs :: "libs \<Rightarrow> job_class \<Rightarrow> response \<Rightarrow> exn + pyval" where
  "process_outputs L FaceJob = decode_response L"
| "process_outputs L HandsFixJob = decode_response L"
| "process_outputs L MaskJob = decode_response L"
| "process_outputs L ModelGenerationJob = decode_response L"
| "process_outputs L RetouchJob = decode_response L"
| "process_outputs L TryOnJob = decode_response L"

section \<open>\<^verbatim>\<open>client.py\<close>: JobClient\<close>

definition job_mapping :: "string \<Rightarrow> job_class option" where
  "job_mapping job_type =
     (if job_type = ''face_job'' then Some FaceJob
      else if job_type = ''handsfix_job'' then Some HandsFixJob
      else if job_type = ''mask_job'' then Some MaskJob
      else if job_type = ''model_generation_job'' then Some ModelGenerationJob
      else if job_type = ''retouch_job'' then Some RetouchJob
      else if job_type = ''tryon_job'' then Some TryOnJob
      else None)"

record client =
  job_class :: job_class
  job_type :: string
  server_url :: string
  max_timeout :: int

definition JobClient_init :: "string \<Rightarrow> string \<Rightarrow> int \<Rightarrow> exn + client" where
  "JobClient_init server_url' job_type' max_timeout' =
     (case job_mapping job_type' of
        None \<Rightarrow> Inl (AssertionError (''Invalid job type: '' @ job_type'))
      | Some c \<Rightarrow> Inr \<lparr>job_class = c, job_type = job_type',
                       server_url = server_url', max_timeout = max_timeout'\<rparr>)"

text \<open>
  What a call does beyond returning is its trace: the log lines, the POSTs and the
  sleeps, in order.  A log line keeps the values that the f-string formats; the elapsed
  wall-clock time of the last info line is left out.
\<close>

record request =
  url :: string
  req_files :: files
  req_data :: form_data
  timeout :: int

datatype level = INFO | ERROR

datatype logmsg =
    SendingRequest int
  | TimeTaken
  | AttemptFailed int exn
  | Retrying
  | AllRetriesFailed
  | ServerErrorMsg pyval
  | StackTraceHeader
  | StackTrace pyval
  | RawServerResponse string

datatype event = Log level logmsg | Post request | Sleep int

text \<open>
  The server and the network are a parameter: \<open>net i req\<close> is the outcome of
  \<^verbatim>\<open>requests.post\<close> for the request \<open>req\<close> when \<open>i\<close> POSTs of this call went before
  (in \<^verbatim>\<open>run_job\<close> that number is the loop variable \<^verbatim>\<open>attempt\<close>): a response, or the
  exception that \<^verbatim>\<open>requests\<close> raises.
\<close>

type_synonym transport = "int \<Rightarrow> request \<Rightarrow> exn + response"

text \<open>
  The body of the \<^verbatim>\<open>try\<close> in \<^verbatim>\<open>_check_response\<close>.  A parsed body that is not a
  dict has no \<^verbatim>\<open>get\<close>: the line after the parse raises before anything is logged.
\<close>

definition check_response_try :: "response \<Rightarrow> (exn + unit) \<times> event list" where
  "check_response_try resp =
     (case json resp of
        Inl e \<Rightarrow> (Inl e, [])
      | Inr error_data \<Rightarrow>
          (case error_data of
             PDict kvs \<Rightarrow>
               (let msg = (case map_of kvs ''error'' of
                             Some v \<Rightarrow> v
                           | None \<Rightarrow> PStr ''Unknown error'')
                in case map_of kvs ''stack_trace'' of
                     Some st \<Rightarrow>
                       (Inr (), [Log ERROR (ServerErrorMsg msg),
                                 Log ERROR StackTraceHeader,
                                 Log ERROR (StackTrace st)])
                   | None \<Rightarrow> (Inr (), [Log ERROR (ServerErrorMsg msg)]))
           | _ \<Rightarrow> (Inl (no_attribute error_data ''get''), [])))"

definition check_response :: "response \<Rightarrow> (exn + unit) \<times> event list" where
  "check_response resp =
     (if status_code resp \<noteq> 200 then
        (case check_response_try resp of
           (Inl e, logs) \<Rightarrow> (Inr (), logs @ [Log ERROR (RawServerResponse (resp_text resp))])
         | (Inr u, logs) \<Rightarrow> (Inr (), logs))
      else (Inr (), []))"

text \<open>
  The body of the \<^verbatim>\<open>try\<close> in \<^verbatim>\<open>run_job\<close>, for the attempt numbered \<open>attempt\<close>.
  \<open>post_request\<close> is the argument list of \<^verbatim>\<open>requests.post\<close>; the timeout is the
  literal \<^verbatim>\<open>600\<close> of the source.
\<close>

definition post_request :: "client \<Rightarrow> payload \<Rightarrow> request" where
  "post_request self p =
     \<lparr>url = server_url self @ ''/run_job'', req_files = fst p, req_data = snd p,
      timeout = 600\<rparr>"

definition run_job_try ::
  "libs \<Rightarrow> transport \<Rightarrow> client \<Rightarrow> payload \<Rightarrow> int \<Rightarrow> (exn + pyval) \<times> event list" where
  "run_job_try L net self p attempt =
     (let req = post_request self p;
          sent = [Log INFO (SendingRequest (attempt + 1)), Post req]
      in case net attempt req of
           Inl e \<Rightarrow> (Inl e, sent)
         | Inr resp \<Rightarrow>
             (case check_response resp of
                (Inl e, logs) \<Rightarrow> (Inl e, sent @ logs)
              | (Inr u, logs) \<Rightarrow>
                  (case process_outputs L (job_class self) resp of
                     Inl e \<Rightarrow> (Inl e, sent @ logs)
                   | Inr result_img \<Rightarrow> (Inr result_img, sent @ logs @ [Log INFO TimeTaken]))))"

definition after :: "event list \<Rightarrow> (exn + pyval) \<times> event list \<Rightarrow> (exn + pyval) \<times> event list" where
  "after evs r = (fst r, evs @ snd r)"

text \<open>
  The \<^verbatim>\<open>while attempt < retry\<close> loop.  \<^verbatim>\<open>except Exception\<close> catches every raise of the
  \<^verbatim>\<open>try\<close> body; the bare \<^verbatim>\<open>raise\<close> re-raises it.  When the loop ends without a
  \<^verbatim>\<open>return\<close> the function returns \<^verbatim>\<open>None\<close>.
\<close>

function run_job_loop ::
  "libs \<Rightarrow> transport \<Rightarrow> client \<Rightarrow> payload \<Rightarrow> int \<Rightarrow> int \<Rightarrow> (exn + pyval) \<times> event list" where
  "run_job_loop L net self p retry attempt =
     (if attempt < retry then
        (case run_job_try L net self p attempt of
           (Inr result_img, evs) \<Rightarrow> (Inr result_img, evs)
         | (Inl e, evs) \<Rightarrow>
             (if attempt + 1 < retry then
                after (evs @ [Log ERROR (AttemptFailed (attempt + 1) e),
                              Log INFO Retrying, Sleep 2])
                      (run_job_loop L net self p retry (attempt + 1))
              else
                (Inl e, evs @ [Log ERROR (AttemptFailed (attempt + 1) e),
                               Log ERROR AllRetriesFailed])))
      else (Inr PNone, []))"
  by pat_completeness auto
termination
  by (relation "measure (\<lambda>(L, net, self, p, retry, attempt). nat (retry - attempt))") auto

definition run_job ::
  "libs \<Rightarrow> transport \<Rightarrow> client \<Rightarrow> input_data \<Rightarrow> int \<Rightarrow> (exn + pyval) \<times> event list" where
  "run_job L net self input_data retry =
     (case process_inputs L (job_class self) input_data of
        Inl e \<Rightarrow> (Inl e, [])
      | Inr p \<Rightarrow> run_job_loop L net self p retry 0)"

text \<open>
  \<^verbatim>\<open>_check_health\<close>: \<open>get u t\<close> is the outcome of \<^verbatim>\<open>requests.get(u, timeout=t)\<close>.  The
  bare \<^verbatim>\<open>except\<close> turns every raise into \<^verbatim>\<open>False\<close>.
\<close>

definition check_health :: "(string \<Rightarrow> int \<Rightarrow> exn + response) \<Rightarrow> client \<Rightarrow> exn + bool" where
  "check_health get self =
     (case get (server_url self @ ''/health'') 5 of
        Inl e \<Rightarrow> Inr False
      | Inr resp \<Rightarrow> Inr (status_code resp = 200))"

section \<open>The retry loop as the specification words it\<close>



section \<open>The catalog table and observations on traces\<close>

text \<open>
  The required-field contract of each class: the keys its \<^verbatim>\<open>process_inputs\<close> asserts,
  which are the required inputs of the catalog table.
\<close>

fun required_fields :: "job_class \<Rightarrow> string list" where
  "required_fields FaceJob = [''model_img'', ''generation_type'', ''inpaint_params'', ''prompt'']"
| "required_fields MaskJob = [''category'', ''model_img'']"
| "required_fields TryOnJob = [''category'', ''model_img'', ''cloth_img'', ''mask_img'']"
| "required_fields HandsFixJob = [''model_img'']"
| "required_fields RetouchJob = [''model_img'']"
| "required_fields ModelGenerationJob = [''prompt'']"


text \<open>The message of a failed assertion names the key between quotes.\<close>

definition missing_key_message :: "string \<Rightarrow> string \<Rightarrow> string" where
  "missing_key_message key sfx = ''Missing '' @ quoted key @ '' key in input'' @ sfx"

fun is_network_event :: "event \<Rightarrow> bool" where
  "is_network_event (Log _ _) = False"
| "is_network_event (Post _) = True"
| "is_network_event (Sleep _) = True"

fun is_post :: "event \<Rightarrow> bool" where
  "is_post (Post _) = True"
| "is_post _ = False"

fun is_sleep :: "event \<Rightarrow> bool" where
  "is_sleep (Sleep _) = True"
| "is_sleep _ = False"

definition network_events :: "event list \<Rightarrow> event list" where
  "network_events evs = filter is_network_event evs"

section \<open>A concrete environment\<close>

text \<open>
  A small instance of the library boundary, server scripts, clients as the constructor
  builds them and inputs, on which the definitions evaluate.  Its base64 decoder reads a character as its byte, its image
  reader rejects the empty buffer, and its serialiser writes the keys of the object.
\<close>

fun job_type_name :: "job_class \<Rightarrow> string" where
  "job_type_name FaceJob = ''face_job''"
| "job_type_name HandsFixJob = ''handsfix_job''"
| "job_type_name MaskJob = ''mask_job''"
| "job_type_name ModelGenerationJob = ''model_generation_job''"
| "job_type_name RetouchJob = ''retouch_job''"
| "job_type_name TryOnJob = ''tryon_job''"

definition demo_libs :: libs where
  "demo_libs =
     \<lparr>isfile = (\<lambda>path. False),
      image_open_path = (\<lambda>path. Inl (OtherException ''FileNotFoundError'')),
      image_open_bytes = (\<lambda>b. if b = [] then Inl (OtherException ''UnidentifiedImageError'')
                              else Inr (Image b)),
      save_png = (\<lambda>img. case img of Image b \<Rightarrow> Inr b),
      fromarray_uint8 = (\<lambda>a. case a of NdArray xs \<Rightarrow> Inr (Image (map of_nat xs))),
      np_array = (\<lambda>img. case img of Image b \<Rightarrow> Inr (NdArray (map unat b))),
      b64decode = (\<lambda>v. case v of
                          PStr s \<Rightarrow> Inr (map (\<lambda>c. of_nat (of_char c)) s)
                        | PBytes b \<Rightarrow> Inr b
                        | _ \<Rightarrow> Inl (TypeError ''argument should be a bytes-like object or ASCII string'')),
      json_dumps = (\<lambda>v. case v of
                           PDict kvs \<Rightarrow> Inr (concat (map (\<lambda>kv. fst kv @ '';'') kvs))
                         | _ \<Rightarrow> Inr ''null'')\<rparr>"

definition demo_client :: "job_class \<Rightarrow> int \<Rightarrow> client" where
  "demo_client c t =
     \<lparr>job_class = c, job_type = job_type_name c, server_url = ''http://server'',
      max_timeout = t\<rparr>"

definition demo_input :: input_data where
  "demo_input =
     [''model_img'' \<mapsto> PBytes [1, 2, 3], ''cloth_img'' \<mapsto> PBytes [4, 5], ''mask_img'' \<mapsto> PNone,
      ''category'' \<mapsto> PStr ''upper_body'', ''prompt'' \<mapsto> PStr ''a model'',
      ''generation_type'' \<mapsto> PStr ''inpaint'', ''inpaint_params'' \<mapsto> PDict []]"

definition ok_response :: "int \<Rightarrow> response" where
  "ok_response code =
     \<lparr>status_code = code, resp_text = ''{result: AQ}'',
      json = Inr (PDict [(''result'', PStr ''A'')])\<rparr>"

definition error_response :: response where
  "error_response =
     \<lparr>status_code = 500, resp_text = ''{error: boom, stack_trace: tb}'',
      json = Inr (PDict [(''error'', PStr ''boom''), (''stack_trace'', PStr ''tb'')])\<rparr>"

definition html_response :: response where
  "html_response =
     \<lparr>status_code = 502, resp_text = ''<html>Bad Gateway</html>'',
      json = Inl (OtherException ''JSONDecodeError'')\<rparr>"

definition always :: "exn + response \<Rightarrow> transport" where
  "always r = (\<lambda>i req. r)"

definition refuse_then :: "int \<Rightarrow> response \<Rightarrow> transport" where
  "refuse_then n r =
     (\<lambda>i req. if i < n then Inl (RequestException ''ConnectionError'') else Inr r)"

definition demo_payload :: payload where
  "demo_payload =
     (Some [(''model_img_buffer'', (''model.png'', PBytes [1, 2, 3], ''image/png''))],
      Some [(''generation_data'', ''category;'')])"

definition demo_request :: request where
  "demo_request =
     \<lparr>url = ''http://server/run_job'', req_files = fst demo_payload,
      req_data = snd demo_payload, timeout = 600\<rparr>"

definition healthy_get :: "string \<Rightarrow> int \<Rightarrow> exn + response" where
  "healthy_get u t =
     (if u = ''http://server/health'' \<and> t = 5 then Inr (ok_response 200)
      else Inl (RequestException ''ConnectionError''))"

definition refused_get :: "string \<Rightarrow> int \<Rightarrow> exn + response" where
  "refused_get u t = Inl (RequestException ''ConnectionError'')"

section \<open>Facts about the embedding\<close>

declare run_job_loop.simps [simp del]


lemma lower_PIL: "lower ''PIL'' = ''pil''"
  by code_simp

lemma from_bytes_PIL:
  "from_bytes L b ''PIL'' =
     (case image_open_bytes L b of Inl e \<Rightarrow> Inl e | Inr img \<Rightarrow> Inr (PImage img))"
  by (simp add: from_bytes_def lower_PIL split: sum.splits)

lemma check_response_never_raises: "fst (check_response resp) = Inr ()"
  by (simp add: check_response_def split: prod.splits sum.splits)

lemma check_response_only_logs: "network_events (snd (check_response resp)) = []"
  by (auto simp: check_response_def check_response_try_def network_events_def Let_def
           split: prod.splits sum.splits pyval.splits option.splits)

lemma check_response_cases:
  assumes "check_response resp = (r, logs)"
  shows "r = Inr () \<and> network_events logs = []"
  using check_response_never_raises [of resp] check_response_only_logs [of resp] assms
  by simp

lemma run_job_try_result:
  "fst (run_job_try L net self p i) =
     (case net i (post_request self p) of
        Inl e \<Rightarrow> Inl e
      | Inr resp \<Rightarrow> process_outputs L (job_class self) resp)"
  by (auto simp: run_job_try_def Let_def split: sum.splits prod.splits
           dest!: check_response_cases)

lemma run_job_try_network:
  "network_events (snd (run_job_try L net self p i)) = [Post (post_request self p)]"
  by (auto simp: run_job_try_def Let_def network_events_def split: sum.splits prod.splits
           dest!: check_response_cases)

lemma fst_after: "fst (after evs r) = fst r"
  by (simp add: after_def)

lemma snd_after: "snd (after evs r) = evs @ snd r"
  by (simp add: after_def)

lemma network_events_append:
  "network_events (xs @ ys) = network_events xs @ network_events ys"
  by (simp add: network_events_def)

lemma loop_not_entered:
  "\<not> attempt < retry \<Longrightarrow> run_job_loop L net self p retry attempt = (Inr PNone, [])"
  by (simp add: run_job_loop.simps)

lemma loop_success:
  assumes "attempt < retry" and "run_job_try L net self p attempt = (Inr v, evs)"
  shows "run_job_loop L net self p retry attempt = (Inr v, evs)"
  using assms by (simp add: run_job_loop.simps)

lemma loop_fail_retry:
  assumes "attempt + 1 < retry" and "run_job_try L net self p attempt = (Inl e, evs)"
  shows "run_job_loop L net self p retry attempt =
           after (evs @ [Log ERROR (AttemptFailed (attempt + 1) e), Log INFO Retrying, Sleep 2])
                 (run_job_loop L net self p retry (attempt + 1))"
  using assms by (simp add: run_job_loop.simps)

lemma loop_fail_last:
  assumes "attempt < retry" and "\<not> attempt + 1 < retry"
    and "run_job_try L net self p attempt = (Inl e, evs)"
  shows "run_job_loop L net self p retry attempt =
           (Inl e, evs @ [Log ERROR (AttemptFailed (attempt + 1) e), Log ERROR AllRetriesFailed])"
  using assms by (simp add: run_job_loop.simps)

lemma loop_raise_is_last:
  "fst (run_job_loop L net self p retry attempt) = Inl e \<Longrightarrow>
     attempt < retry \<and> fst (run_job_try L net self p (retry - 1)) = Inl e"
proof (induction L net self p retry attempt rule: run_job_loop.induct)
  case (1 L net self p retry attempt)
  show ?case
  proof (cases "attempt < retry")
    case False
    with "1.prems" show ?thesis by (simp add: loop_not_entered)
  next
    case True
    obtain r evs where t: "run_job_try L net self p attempt = (r, evs)"
      by (cases "run_job_try L net self p attempt")
    show ?thesis
    proof (cases r)
      case (Inr v)
      with True t "1.prems" show ?thesis by (simp add: loop_success)
    next
      case (Inl e')
      show ?thesis
      proof (cases "attempt + 1 < retry")
        case more: True
        from more t Inl "1.prems"
        have "fst (run_job_loop L net self p retry (attempt + 1)) = Inl e"
          by (simp add: loop_fail_retry fst_after)
        with "1.IH" [OF True _ _ more] t Inl have
          "fst (run_job_try L net self p (retry - 1)) = Inl e" by simp
        with True show ?thesis by simp
      next
        case last: False
        with True have eq: "retry - 1 = attempt" by simp
        from True last t Inl "1.prems" have "e' = e" by (simp add: loop_fail_last)
        with t Inl eq True show ?thesis by simp
      qed
    qed
  qed
qed

lemma loop_all_fail:
  "attempt < retry \<Longrightarrow>
   (\<forall>i. attempt \<le> i \<and> i < retry \<longrightarrow> isl (fst (run_job_try L net self p i))) \<Longrightarrow>
     fst (run_job_loop L net self p retry attempt) = fst (run_job_try L net self p (retry - 1)) \<and>
     network_events (snd (run_job_loop L net self p retry attempt)) =
       concat (map (\<lambda>i. Post (post_request self p) # (if i + 1 < retry then [Sleep 2] else []))
                   [attempt..retry - 1])"
proof (induction L net self p retry attempt rule: run_job_loop.induct)
  case (1 L net self p retry attempt)
  note lt = "1.prems"(1) and fails = "1.prems"(2)
  obtain r evs where t: "run_job_try L net self p attempt = (r, evs)"
    by (cases "run_job_try L net self p attempt")
  from fails lt have "isl (fst (run_job_try L net self p attempt))" by simp
  with t obtain e where r: "r = Inl e" by (cases r) auto
  have nev: "network_events evs = [Post (post_request self p)]"
    using run_job_try_network [of L net self p attempt] t by simp
  show ?case
  proof (cases "attempt + 1 < retry")
    case more: True
    have fails': "\<forall>i. attempt + 1 \<le> i \<and> i < retry \<longrightarrow> isl (fst (run_job_try L net self p i))"
      using fails by simp
    have ih: "fst (run_job_loop L net self p retry (attempt + 1)) =
                fst (run_job_try L net self p (retry - 1)) \<and>
              network_events (snd (run_job_loop L net self p retry (attempt + 1))) =
                concat (map (\<lambda>i. Post (post_request self p) # (if i + 1 < retry then [Sleep 2] else []))
                            [attempt + 1..retry - 1])"
      using "1.IH" [OF lt _ _ more more fails'] t r by simp
    have up: "[attempt..retry - 1] = attempt # [attempt + 1..retry - 1]"
      using lt by (simp add: upto_rec1)
    have unfold: "run_job_loop L net self p retry attempt =
           after (evs @ [Log ERROR (AttemptFailed (attempt + 1) e), Log INFO Retrying, Sleep 2])
                 (run_job_loop L net self p retry (attempt + 1))"
      using loop_fail_retry [OF more] t r by simp
    show ?thesis
      using ih more nev
      by (simp add: unfold fst_after snd_after up network_events_append)
         (simp add: network_events_def)
  next
    case last: False
    with lt have eq: "retry - 1 = attempt" by simp
    have unfold: "run_job_loop L net self p retry attempt =
           (Inl e, evs @ [Log ERROR (AttemptFailed (attempt + 1) e), Log ERROR AllRetriesFailed])"
      using loop_fail_last [OF lt last] t r by simp
    show ?thesis
      using nev last t r
      by (simp add: unfold eq network_events_append) (simp add: network_events_def)
  qed
qed

lemma demo_client_constructed:
  "JobClient_init ''http://server'' (job_type_name c) t = Inr (demo_client c t)"
  by (cases c) (simp_all add: JobClient_init_def job_mapping_def demo_client_def)

lemma loop_first_success:
  "attempt \<le> i \<Longrightarrow> i < retry \<Longrightarrow>
   (\<forall>j. attempt \<le> j \<and> j < i \<longrightarrow> isl (fst (run_job_try L net self p j))) \<Longrightarrow>
   fst (run_job_try L net self p i) = Inr v \<Longrightarrow>
     fst (run_job_loop L net self p retry attempt) = Inr v"
proof (induction L net self p retry attempt rule: run_job_loop.induct)
  case (1 L net self p retry attempt)
  note le = "1.prems"(1) and lt = "1.prems"(2) and fails = "1.prems"(3) and ok = "1.prems"(4)
  from le lt have enter: "attempt < retry" by simp
  obtain r evs where t: "run_job_try L net self p attempt = (r, evs)"
    by (cases "run_job_try L net self p attempt")
  show ?case
  proof (cases "attempt = i")
    case True
    with ok t have "r = Inr v" by simp
    with enter t show ?thesis by (simp add: loop_success)
  next
    case False
    with le have lt_i: "attempt < i" by simp
    with fails have "isl (fst (run_job_try L net self p attempt))" by simp
    with t obtain e where r: "r = Inl e" by (cases r) auto
    from lt_i lt have more: "attempt + 1 < retry" by simp
    from lt_i have le': "attempt + 1 \<le> i" by simp
    have fails': "\<forall>j. attempt + 1 \<le> j \<and> j < i \<longrightarrow> isl (fst (run_job_try L net self p j))"
      using fails by simp
    have "fst (run_job_loop L net self p retry (attempt + 1)) = Inr v"
      using "1.IH" [OF enter _ _ more le' lt fails' ok] t r by simp
    then show ?thesis
      using loop_fail_retry [OF more] t r by (simp add: fst_after)
  qed
qed

lemma is_post_network: "filter is_post evs = filter is_post (network_events evs)"
proof -
  have "\<And>e. (is_network_event e \<and> is_post e) = is_post e"
    by (case_tac e) simp_all
  then show ?thesis by (simp add: network_events_def)
qed

lemma is_sleep_network: "filter is_sleep evs = filter is_sleep (network_events evs)"
proof -
  have "\<And>e. (is_network_event e \<and> is_sleep e) = is_sleep e"
    by (case_tac e) simp_all
  then show ?thesis by (simp add: network_events_def)
qed

lemma exhausted_counts:
  "a \<le> N \<Longrightarrow>
     length (filter is_post (concat (map (\<lambda>i. Post r # (if i + 1 < N then [Sleep 2] else []))
                                         [a..N - 1]))) = nat (N - a) \<and>
     filter is_sleep (concat (map (\<lambda>i. Post r # (if i + 1 < N then [Sleep 2] else []))
                                  [a..N - 1])) = replicate (nat (N - a) - 1) (Sleep 2)"
proof (induction "nat (N - a)" arbitrary: a)
  case 0
  then have "a = N" by simp
  then show ?case by simp
next
  case (Suc n)
  then have lt: "a < N" and n: "n = nat (N - (a + 1))" by linarith+
  have up: "[a..N - 1] = a # [a + 1..N - 1]"
    using lt by (simp add: upto_rec1)
  from lt have le: "a + 1 \<le> N" by simp
  note ih = Suc.hyps(1) [OF n le]
  show ?case
  proof (cases "a + 1 < N")
    case True
    then obtain m where m: "nat (N - (a + 1)) = Suc m"
      by (cases "nat (N - (a + 1))") auto
    then have m': "nat (N - a) = Suc (Suc m)" using lt by linarith
    show ?thesis using ih True by (simp add: up m m')
  next
    case False
    with lt have "N = a + 1" by simp
    then show ?thesis by simp
  qed
qed

lemma find_missing:
  assumes "k \<in> set ks" and "input_data k = None"
  obtains k' where "find (\<lambda>k. input_data k = None) ks = Some k'"
    and "k' \<in> set ks" and "input_data k' = None"
proof -
  from assms have "find (\<lambda>k. input_data k = None) ks \<noteq> None"
    by (auto simp: find_None_iff)
  then obtain k' where f: "find (\<lambda>k. input_data k = None) ks = Some k'" by auto
  then have "k' \<in> set ks \<and> input_data k' = None"
    by (auto simp: find_Some_iff)
  with f that show thesis by blast
qed

lemma FaceJob_first_missing:
  "find (\<lambda>k. input_data k = None) (required_fields FaceJob) = Some k \<Longrightarrow>
     FaceJob_process_inputs L input_data =
       Inl (AssertionError (''Missing '' @ quoted k @ '' key in input data''))"
  by (auto simp: FaceJob_process_inputs_def quoted_def split: if_splits)

lemma MaskJob_first_missing:
  "find (\<lambda>k. input_data k = None) (required_fields MaskJob) = Some k \<Longrightarrow>
     MaskJob_process_inputs L input_data =
       Inl (AssertionError (''Missing '' @ quoted k @ '' key in input_data''))"
  by (auto simp: MaskJob_process_inputs_def quoted_def split: if_splits)

lemma TryOnJob_first_missing:
  "find (\<lambda>k. input_data k = None) (required_fields TryOnJob) = Some k \<Longrightarrow>
     TryOnJob_process_inputs L input_data =
       Inl (AssertionError (''Missing '' @ quoted k @ '' key in input_data''))"
  by (auto simp: TryOnJob_process_inputs_def quoted_def split: if_splits)

lemma HandsFixJob_first_missing:
  "find (\<lambda>k. input_data k = None) (required_fields HandsFixJob) = Some k \<Longrightarrow>
     HandsFixJob_process_inputs L input_data =
       Inl (AssertionError (''Missing '' @ quoted k @ '' key in input_data''))"
  by (auto simp: HandsFixJob_process_inputs_def quoted_def split: if_splits)

lemma RetouchJob_first_missing:
  "find (\<lambda>k. input_data k = None) (required_fields RetouchJob) = Some k \<Longrightarrow>
     RetouchJob_process_inputs L input_data =
       Inl (AssertionError (''Missing '' @ quoted k @ '' key in input_data''))"
  by (auto simp: RetouchJob_process_inputs_def quoted_def split: if_splits)

lemma ModelGenerationJob_first_missing:
  "find (\<lambda>k. input_data k = None) (required_fields ModelGenerationJob) = Some k \<Longrightarrow>
     ModelGenerationJob_process_inputs L input_data =
       Inl (AssertionError (''Missing '' @ quoted k @ '' key in input data''))"
  by (auto simp: ModelGenerationJob_process_inputs_def quoted_def split: if_splits)

lemma process_inputs_first_missing:
  assumes "find (\<lambda>k. input_data k = None) (required_fields c) = Some k"
  shows "\<exists>post. process_inputs L c input_data =
           Inl (AssertionError (''Missing '' @ quoted k @ post))"
proof (cases c)
  case FaceJob
  with assms FaceJob_first_missing [of input_data k L] show ?thesis by auto
next
  case HandsFixJob
  with assms HandsFixJob_first_missing [of input_data k L] show ?thesis by auto
next
  case MaskJob
  with assms MaskJob_first_missing [of input_data k L] show ?thesis by auto
next
  case ModelGenerationJob
  with assms ModelGenerationJob_first_missing [of input_data k L] show ?thesis by auto
next
  case RetouchJob
  with assms RetouchJob_first_missing [of input_data k L] show ?thesis by auto
next
  case TryOnJob
  with assms TryOnJob_first_missing [of input_data k L] show ?thesis by auto
qed

lemma process_inputs_missing:
  assumes "k \<in> set (required_fields c)" and "input_data k = None"
  shows "\<exists>k' post. k' \<in> set (required_fields c) \<and> input_data k' = None \<and>
           process_inputs L c input_data = Inl (AssertionError (''Missing '' @ quoted k' @ post))"
proof -
  from assms obtain k' where f: "find (\<lambda>k. input_data k = None) (required_fields c) = Some k'"
    and k': "k' \<in> set (required_fields c)" "input_data k' = None"
    by (rule find_missing)
  from process_inputs_first_missing [OF f] k' show ?thesis by blast
qed

lemma demo_encode: "MaskJob_process_inputs demo_libs demo_input = Inr demo_payload"
  by (simp add: MaskJob_process_inputs_def demo_input_def demo_libs_def demo_payload_def
                dict_get_def to_bytes_def)

lemma demo_decode_ok:
  "decode_response demo_libs (ok_response code) = Inr (PImage (Image [65]))"
  by (simp add: decode_response_def ok_response_def py_get_def demo_libs_def from_bytes_PIL)

lemma demo_decode_error:
  "decode_response demo_libs error_response =
     Inl (TypeError ''argument should be a bytes-like object or ASCII string'')"
  by (simp add: decode_response_def error_response_def py_get_def demo_libs_def)

lemma decode_valid_image:
  assumes "json resp = Inr (PDict kvs)" and "map_of kvs ''result'' = Some v"
    and "b64decode L v = Inr decoded" and "image_open_bytes L decoded = Inr img"
  shows "process_outputs L c resp = Inr (PImage img)"
  using assms by (cases c) (simp_all add: decode_response_def py_get_def from_bytes_PIL)


lemma demo_post_request: "post_request (demo_client c t) demo_payload = demo_request"
  by (simp add: post_request_def demo_client_def demo_request_def)

lemma demo_try_error:
  "fst (run_job_try demo_libs (always (Inr error_response)) (demo_client MaskJob t) demo_payload i) =
     Inl (TypeError ''argument should be a bytes-like object or ASCII string'')"
  by (simp add: run_job_try_result always_def demo_client_def demo_decode_error)

lemma demo_try_ok:
  "fst (run_job_try demo_libs (always (Inr (ok_response code))) (demo_client MaskJob t) demo_payload i) =
     Inr (PImage (Image [65]))"
  by (simp add: run_job_try_result always_def demo_client_def demo_decode_ok)

lemma demo_run_ok:
  "0 < retry \<Longrightarrow>
     fst (run_job demo_libs (always (Inr (ok_response code))) (demo_client MaskJob t) demo_input retry) =
       Inr (PImage (Image [65]))"
proof -
  assume r: "0 < retry"
  obtain evs where
    "run_job_try demo_libs (always (Inr (ok_response code))) (demo_client MaskJob t) demo_payload 0 =
       (Inr (PImage (Image [65])), evs)"
    using demo_try_ok [of code t 0]
    by (cases "run_job_try demo_libs (always (Inr (ok_response code))) (demo_client MaskJob t) demo_payload 0")
       auto
  from loop_success [OF r this] show ?thesis
    by (simp add: run_job_def demo_client_def demo_encode)
qed

lemma demo_b64: "b64decode demo_libs (PStr ''A'') = Inr [65]"
  by (simp add: demo_libs_def)

lemma demo_open: "image_open_bytes demo_libs [65] = Inr (Image [65])"
  by (simp add: demo_libs_def)

section \<open>The claims\<close>

text \<open>
  \<^bold>\<open>C1\<close> (as amended).  For every response whose status code is not 200,
  \<^verbatim>\<open>_check_response\<close> logs the error envelope and raises nothing: the \<^verbatim>\<open>error\<close> field
  (or \<^verbatim>\<open>Unknown error\<close>) and, if present, the \<^verbatim>\<open>stack_trace\<close> field when the body
  parses as a JSON object, the raw body text otherwise.  The attempt then goes on to the
  decode step and its outcome is the outcome of \<^verbatim>\<open>process_outputs\<close> on that response.
  When \<^verbatim>\<open>run_job\<close> raises after its input was encoded, at least one attempt was made
  and the error raised is the error of the last attempt.
\<close>

theorem non_200_is_logged_not_raised:
  assumes "status_code resp \<noteq> 200"
  shows "check_response resp =
           (Inr (),
            case json resp of
              Inl e \<Rightarrow> [Log ERROR (RawServerResponse (resp_text resp))]
            | Inr error_data \<Rightarrow>
                (case error_data of
                   PDict kvs \<Rightarrow>
                     Log ERROR (ServerErrorMsg (case map_of kvs ''error'' of
                                                  Some m \<Rightarrow> m
                                                | None \<Rightarrow> PStr ''Unknown error'')) #
                     (case map_of kvs ''stack_trace'' of
                        Some st \<Rightarrow> [Log ERROR StackTraceHeader, Log ERROR (StackTrace st)]
                      | None \<Rightarrow> [])
                 | _ \<Rightarrow> [Log ERROR (RawServerResponse (resp_text resp))])) \<and>
         (net attempt (post_request self p) = Inr resp \<longrightarrow>
            fst (run_job_try L net self p attempt) = process_outputs L (job_class self) resp) \<and>
         (process_inputs L (job_class self) input_data = Inr p \<and>
          fst (run_job L net self input_data retry) = Inl e \<longrightarrow>
            0 < retry \<and> fst (run_job_try L net self p (retry - 1)) = Inl e)"
proof (intro conjI impI)
  show "check_response resp =
           (Inr (),
            case json resp of
              Inl e \<Rightarrow> [Log ERROR (RawServerResponse (resp_text resp))]
            | Inr error_data \<Rightarrow>
                (case error_data of
                   PDict kvs \<Rightarrow>
                     Log ERROR (ServerErrorMsg (case map_of kvs ''error'' of
                                                  Some m \<Rightarrow> m
                                                | None \<Rightarrow> PStr ''Unknown error'')) #
                     (case map_of kvs ''stack_trace'' of
                        Some st \<Rightarrow> [Log ERROR StackTraceHeader, Log ERROR (StackTrace st)]
                      | None \<Rightarrow> [])
                 | _ \<Rightarrow> [Log ERROR (RawServerResponse (resp_text resp))]))"
    using assms
    by (simp add: check_response_def check_response_try_def Let_def
             split: sum.splits pyval.splits option.splits)
next
  assume "net attempt (post_request self p) = Inr resp"
  then show "fst (run_job_try L net self p attempt) = process_outputs L (job_class self) resp"
    by (simp add: run_job_try_result)
next
  assume a: "process_inputs L (job_class self) input_data = Inr p \<and>
          fst (run_job L net self input_data retry) = Inl e"
  then have "fst (run_job_loop L net self p retry 0) = Inl e"
    by (auto simp: run_job_def)
  from loop_raise_is_last [OF this]
  show "0 < retry" and "fst (run_job_try L net self p (retry - 1)) = Inl e" by simp_all
qed

theorem non_200_is_logged_not_raised_witness:
  "check_response error_response =
     (Inr (), [Log ERROR (ServerErrorMsg (PStr ''boom'')), Log ERROR StackTraceHeader,
               Log ERROR (StackTrace (PStr ''tb''))]) \<and>
   fst (run_job_try demo_libs (always (Inr error_response)) (demo_client MaskJob 600) demo_payload 0) =
     process_outputs demo_libs MaskJob error_response \<and>
   fst (run_job demo_libs (always (Inr error_response)) (demo_client MaskJob 600) demo_input 1) =
     Inl (TypeError ''argument should be a bytes-like object or ASCII string'') \<and>
   check_response html_response =
     (Inr (), [Log ERROR (RawServerResponse ''<html>Bad Gateway</html>'')])"
proof -
  have h: "status_code error_response \<noteq> 200" by (simp add: error_response_def)
  have h': "status_code html_response \<noteq> 200" by (simp add: html_response_def)
  from non_200_is_logged_not_raised [OF h', of "always (Inr html_response)" 0
         "demo_client MaskJob 600" demo_payload demo_libs demo_input 1
         "TypeError ''argument should be a bytes-like object or ASCII string''"]
  have raw: "check_response html_response =
     (Inr (), [Log ERROR (RawServerResponse ''<html>Bad Gateway</html>'')])"
    by (simp add: html_response_def)
  have enc: "process_inputs demo_libs (job_class (demo_client MaskJob 600)) demo_input =
              Inr demo_payload"
    by (simp add: demo_client_def demo_encode)
  obtain evs where t:
    "run_job_try demo_libs (always (Inr error_response)) (demo_client MaskJob 600) demo_payload 0 =
       (Inl (TypeError ''argument should be a bytes-like object or ASCII string''), evs)"
    using demo_try_error [of 600 0]
    by (cases "run_job_try demo_libs (always (Inr error_response)) (demo_client MaskJob 600) demo_payload 0")
       auto
  have run: "fst (run_job demo_libs (always (Inr error_response)) (demo_client MaskJob 600) demo_input 1) =
     Inl (TypeError ''argument should be a bytes-like object or ASCII string'')"
    using loop_fail_last [OF _ _ t, of 1] enc by (simp add: run_job_def)
  from non_200_is_logged_not_raised [OF h, of "always (Inr error_response)" 0
         "demo_client MaskJob 600" demo_payload demo_libs demo_input 1
         "TypeError ''argument should be a bytes-like object or ASCII string''"]
       enc run raw
  show ?thesis
    by (simp add: error_response_def always_def demo_client_def)
qed

text \<open>
  The claim as first stated (a response that is not 200 makes the attempt fail with a
  server error) is false: a response with status 500 whose body holds a decodable
  \<^verbatim>\<open>result\<close> makes the attempt succeed, and \<^verbatim>\<open>run_job\<close> returns the image.
\<close>

theorem non_200_with_result_succeeds:
  "status_code (ok_response 500) \<noteq> 200 \<and>
   fst (run_job_try demo_libs (always (Inr (ok_response 500))) (demo_client MaskJob 600)
                    demo_payload 0) = Inr (PImage (Image [65])) \<and>
   fst (run_job demo_libs (always (Inr (ok_response 500))) (demo_client MaskJob 600) demo_input 3) =
     Inr (PImage (Image [65]))"
  by (simp add: demo_try_ok demo_run_ok) (simp add: ok_response_def)

text \<open>
  \<^bold>\<open>C2\<close>.  The status code never decides the outcome of an attempt.
  \<^verbatim>\<open>_check_response\<close> raises for no response; the outcome of an attempt whose POST
  returned a response is the outcome of \<^verbatim>\<open>process_outputs\<close> on it, whatever its status;
  and when the body parses to an object whose \<^verbatim>\<open>result\<close> base64-decodes to bytes that
  open as an image, an attempt within the budget that receives it, after failed attempts
  only, makes \<^verbatim>\<open>run_job\<close> return that image.
\<close>

theorem status_code_never_decides:
  "fst (check_response resp) = Inr () \<and>
   (net attempt (post_request self p) = Inr resp \<longrightarrow>
      fst (run_job_try L net self p attempt) = process_outputs L (job_class self) resp) \<and>
   (json resp = Inr (PDict kvs) \<and> map_of kvs ''result'' = Some v \<and>
    b64decode L v = Inr decoded \<and> image_open_bytes L decoded = Inr img \<and>
    process_inputs L (job_class self) input_data = Inr p \<and>
    0 \<le> i \<and> i < retry \<and>
    (\<forall>j. 0 \<le> j \<and> j < i \<longrightarrow> isl (fst (run_job_try L net self p j))) \<and>
    net i (post_request self p) = Inr resp \<longrightarrow>
      fst (run_job L net self input_data retry) = Inr (PImage img))"
proof (intro conjI impI)
  show "fst (check_response resp) = Inr ()" by (rule check_response_never_raises)
next
  assume "net attempt (post_request self p) = Inr resp"
  then show "fst (run_job_try L net self p attempt) = process_outputs L (job_class self) resp"
    by (simp add: run_job_try_result)
next
  assume a: "json resp = Inr (PDict kvs) \<and> map_of kvs ''result'' = Some v \<and>
    b64decode L v = Inr decoded \<and> image_open_bytes L decoded = Inr img \<and>
    process_inputs L (job_class self) input_data = Inr p \<and>
    0 \<le> i \<and> i < retry \<and>
    (\<forall>j. 0 \<le> j \<and> j < i \<longrightarrow> isl (fst (run_job_try L net self p j))) \<and>
    net i (post_request self p) = Inr resp"
  then have dec: "process_outputs L (job_class self) resp = Inr (PImage img)"
    by (simp add: decode_valid_image)
  with a have ok: "fst (run_job_try L net self p i) = Inr (PImage img)"
    by (simp add: run_job_try_result)
  from a have le: "0 \<le> i" and lt: "i < retry"
    and fails: "\<forall>j. 0 \<le> j \<and> j < i \<longrightarrow> isl (fst (run_job_try L net self p j))"
    by simp_all
  from loop_first_success [OF le lt fails ok] a
  show "fst (run_job L net self input_data retry) = Inr (PImage img)"
    by (simp add: run_job_def)
qed

theorem status_code_never_decides_witness:
  "status_code (ok_response 500) = 500 \<and>
   fst (run_job demo_libs (refuse_then 1 (ok_response 500)) (demo_client MaskJob 600) demo_input 3) =
     Inr (PImage (Image [65]))"
proof -
  have h: "json (ok_response 500) = Inr (PDict [(''result'', PStr ''A'')]) \<and>
           map_of [(''result'', PStr ''A'')] ''result'' = Some (PStr ''A'') \<and>
           b64decode demo_libs (PStr ''A'') = Inr [65] \<and>
           image_open_bytes demo_libs [65] = Inr (Image [65]) \<and>
           process_inputs demo_libs (job_class (demo_client MaskJob 600)) demo_input =
             Inr demo_payload \<and>
           (0::int) \<le> 1 \<and> (1::int) < 3 \<and>
           (\<forall>j. 0 \<le> j \<and> j < 1 \<longrightarrow>
              isl (fst (run_job_try demo_libs (refuse_then 1 (ok_response 500))
                          (demo_client MaskJob 600) demo_payload j))) \<and>
           refuse_then 1 (ok_response 500) 1 (post_request (demo_client MaskJob 600) demo_payload) =
             Inr (ok_response 500)"
  proof -
    have "\<forall>j. 0 \<le> j \<and> j < 1 \<longrightarrow>
              isl (fst (run_job_try demo_libs (refuse_then 1 (ok_response 500))
                          (demo_client MaskJob 600) demo_payload j))"
      by (simp add: run_job_try_result refuse_then_def)
    then show ?thesis
      by (simp add: ok_response_def refuse_then_def demo_client_def demo_encode demo_b64 demo_open)
  qed
  from status_code_never_decides [where resp = "ok_response 500"
          and net = "refuse_then 1 (ok_response 500)" and attempt = 1
          and self = "demo_client MaskJob 600" and p = demo_payload and L = demo_libs
          and kvs = "[(''result'', PStr ''A'')]" and v = "PStr ''A''" and decoded = "[65]"
          and img = "Image [65]" and retry = 3 and input_data = demo_input and i = 1] h
  have "fst (run_job demo_libs (refuse_then 1 (ok_response 500)) (demo_client MaskJob 600)
                     demo_input 3) = Inr (PImage (Image [65]))"
    by blast
  then show ?thesis by (simp add: ok_response_def)
qed

text \<open>
  \<^bold>\<open>C3\<close>.  Let the input encode to the payload \<open>p\<close>, let \<open>N \<ge> 1\<close>, and let each of
  the attempts \<open>0, \<dots>, N - 1\<close> fail.  Then \<^verbatim>\<open>run_job\<close> with \<^verbatim>\<open>retry = N\<close> raises the error
  of attempt \<open>N - 1\<close>; its POSTs and sleeps are, in order, one POST per attempt with a sleep of
  2 seconds after every attempt but the last; so there are exactly \<open>N\<close> POSTs and \<open>N - 1\<close>
  sleeps, each of 2 seconds.
\<close>

theorem run_job_exhaustion:
  assumes "1 \<le> N"
    and "process_inputs L (job_class self) input_data = Inr p"
    and "\<forall>i. 0 \<le> i \<and> i < N \<longrightarrow> isl (fst (run_job_try L net self p i))"
  shows "(\<exists>e. fst (run_job_try L net self p (N - 1)) = Inl e \<and>
              fst (run_job L net self input_data N) = Inl e) \<and>
         network_events (snd (run_job L net self input_data N)) =
           concat (map (\<lambda>i. Post (post_request self p) # (if i + 1 < N then [Sleep 2] else []))
                       [0..N - 1]) \<and>
         length (filter is_post (snd (run_job L net self input_data N))) = nat N \<and>
         filter is_sleep (snd (run_job L net self input_data N)) = replicate (nat N - 1) (Sleep 2)"
proof -
  have run: "run_job L net self input_data N = run_job_loop L net self p N 0"
    using assms(2) by (simp add: run_job_def)
  from assms(1) have lt: "0 < N" by simp
  note shape = loop_all_fail [OF lt assms(3)]
  from assms(1,3) have "isl (fst (run_job_try L net self p (N - 1)))" by simp
  then obtain e where e: "fst (run_job_try L net self p (N - 1)) = Inl e"
    by (cases "fst (run_job_try L net self p (N - 1))") auto
  have le: "(0::int) \<le> N" using lt by simp
  have counts:
    "length (filter is_post (snd (run_job L net self input_data N))) = nat N"
    "filter is_sleep (snd (run_job L net self input_data N)) = replicate (nat N - 1) (Sleep 2)"
    using exhausted_counts [OF le, of "post_request self p"] shape
    by (simp_all add: run is_post_network [of "snd (run_job_loop L net self p N 0)"]
                      is_sleep_network [of "snd (run_job_loop L net self p N 0)"])
  show ?thesis using shape e counts by (simp add: run)
qed

theorem run_job_exhaustion_witness:
  "fst (run_job demo_libs (always (Inr error_response)) (demo_client MaskJob 600) demo_input 2) =
     Inl (TypeError ''argument should be a bytes-like object or ASCII string'') \<and>
   network_events
     (snd (run_job demo_libs (always (Inr error_response)) (demo_client MaskJob 600) demo_input 2)) =
     [Post demo_request, Sleep 2, Post demo_request] \<and>
   length (filter is_post
     (snd (run_job demo_libs (always (Inr error_response)) (demo_client MaskJob 600) demo_input 2))) = 2 \<and>
   filter is_sleep
     (snd (run_job demo_libs (always (Inr error_response)) (demo_client MaskJob 600) demo_input 2)) =
     [Sleep 2]"
proof -
  have h1: "(1::int) \<le> 2" by simp
  have h2: "process_inputs demo_libs (job_class (demo_client MaskJob 600)) demo_input =
              Inr demo_payload"
    by (simp add: demo_client_def demo_encode)
  have h3: "\<forall>i. 0 \<le> i \<and> i < 2 \<longrightarrow>
              isl (fst (run_job_try demo_libs (always (Inr error_response))
                          (demo_client MaskJob 600) demo_payload i))"
    by (simp add: demo_try_error)
  have up: "[0..1::int] = [0, 1]" by (simp add: upto_rec1)
  from run_job_exhaustion [OF h1 h2 h3] show ?thesis
    by (simp add: demo_try_error demo_post_request up)
qed

text \<open>
  \<^bold>\<open>C4\<close>.  If the input lacks a required field of the client's job class, then
  \<^verbatim>\<open>run_job\<close> raises an \<^verbatim>\<open>AssertionError\<close> whose message holds, between quotes, the name
  of a required field that the input lacks, and its trace is empty: no POST, no sleep, no
  retry, for every server, every library behaviour and every value of \<^verbatim>\<open>retry\<close>.
\<close>

theorem missing_field_fails_fast:
  assumes "k \<in> set (required_fields (job_class self))" and "input_data k = None"
  shows "\<exists>k' post. k' \<in> set (required_fields (job_class self)) \<and> input_data k' = None \<and>
           run_job L net self input_data retry =
             (Inl (AssertionError (''Missing '' @ quoted k' @ post)), [])"
proof -
  from assms process_inputs_missing [of k "job_class self" input_data L] obtain k' post where
    "k' \<in> set (required_fields (job_class self))" "input_data k' = None"
    "process_inputs L (job_class self) input_data =
       Inl (AssertionError (''Missing '' @ quoted k' @ post))" by blast
  then show ?thesis by (auto simp: run_job_def)
qed

theorem missing_field_fails_fast_witness:
  "\<exists>k' post. k' \<in> set (required_fields FaceJob) \<and>
      [''model_img'' \<mapsto> PBytes [1, 2, 3]] k' = None \<and>
      run_job demo_libs (always (Inr (ok_response 200))) (demo_client FaceJob 600)
              [''model_img'' \<mapsto> PBytes [1, 2, 3]] 3 =
        (Inl (AssertionError (''Missing '' @ quoted k' @ post)), [])"
proof -
  have h1: "''prompt'' \<in> set (required_fields (job_class (demo_client FaceJob 600)))"
    by (simp add: demo_client_def)
  have h2: "[''model_img'' \<mapsto> PBytes [1, 2, 3]] ''prompt'' = None" by simp
  from missing_field_fails_fast [of "''prompt''" "demo_client FaceJob 600"
         "[''model_img'' \<mapsto> PBytes [1, 2, 3]]" demo_libs "always (Inr (ok_response 200))" 3]
       h1 h2
  show ?thesis by (simp add: demo_client_def)
qed

text \<open>
  \<^bold>\<open>C5\<close>.  The source passes the literal \<^verbatim>\<open>timeout=600\<close> to \<^verbatim>\<open>requests.post\<close> and
  never reads \<^verbatim>\<open>self.max_timeout\<close>.  For a client constructed with \<^verbatim>\<open>max_timeout = 30\<close>
  the POST of the attempt carries the timeout 600.
\<close>

theorem post_timeout_ignores_max_timeout:
  "max_timeout (demo_client MaskJob 30) = 30 \<and>
   network_events
     (snd (run_job demo_libs (always (Inr (ok_response 200))) (demo_client MaskJob 30) demo_input 3)) =
     [Post \<lparr>url = ''http://server/run_job'',
            req_files = Some [(''model_img_buffer'', (''model.png'', PBytes [1, 2, 3], ''image/png''))],
            req_data = Some [(''generation_data'', ''category;'')],
            timeout = 600\<rparr>]"
proof -
  obtain evs where t:
    "run_job_try demo_libs (always (Inr (ok_response 200))) (demo_client MaskJob 30) demo_payload 0 =
       (Inr (PImage (Image [65])), evs)"
    using demo_try_ok [of 200 30 0]
    by (cases "run_job_try demo_libs (always (Inr (ok_response 200))) (demo_client MaskJob 30) demo_payload 0")
       auto
  have "network_events evs = [Post demo_request]"
    using run_job_try_network [of demo_libs "always (Inr (ok_response 200))"
            "demo_client MaskJob 30" demo_payload 0] t
    by (simp add: demo_post_request)
  moreover have "run_job demo_libs (always (Inr (ok_response 200))) (demo_client MaskJob 30) demo_input 3 =
          (Inr (PImage (Image [65])), evs)"
    using loop_success [OF _ t, of 3] by (simp add: run_job_def demo_client_def demo_encode)
  ultimately show ?thesis
    by (simp add: demo_request_def demo_payload_def) (simp add: demo_client_def)
qed

text \<open>
  \<^bold>\<open>C6\<close>.  For the try-on class, let the input hold the four required keys with
  \<^verbatim>\<open>mask_img\<close> bound to \<^verbatim>\<open>None\<close>.  Then no assertion fails: encoding can only fail in the
  conversion of the model or cloth image or in the serialiser, and otherwise returns three
  file parts of which the one named \<^verbatim>\<open>mask_img_buffer\<close> is
  \<^verbatim>\<open>("mask.png", None, "image/png")\<close>.  Whenever encoding returns, that part is present
  with the content \<^verbatim>\<open>None\<close>.
\<close>

theorem tryon_null_mask_keeps_slot:
  assumes "input_data ''mask_img'' = Some PNone"
    and "input_data ''category'' = Some category"
    and "input_data ''model_img'' = Some model_img"
    and "input_data ''cloth_img'' = Some cloth_img"
  shows "process_inputs L TryOnJob input_data =
           (case to_bytes L model_img of
              Inl e \<Rightarrow> Inl e
            | Inr model_bytes \<Rightarrow>
                (case to_bytes L cloth_img of
                   Inl e \<Rightarrow> Inl e
                 | Inr cloth_bytes \<Rightarrow>
                     (case json_dumps L (PDict [(''category'', category)]) of
                        Inl e \<Rightarrow> Inl e
                      | Inr s \<Rightarrow>
                          Inr (Some [(''model_img_buffer'', (''model.png'', PBytes model_bytes, ''image/png'')),
                                     (''cloth_img_buffer'', (''cloth.png'', PBytes cloth_bytes, ''image/png'')),
                                     (''mask_img_buffer'', (''mask.png'', PNone, ''image/png''))],
                               Some [(''generation_data'', s)])))) \<and>
         (\<forall>fs form. process_inputs L TryOnJob input_data = Inr (fs, form) \<longrightarrow>
            (\<exists>parts. fs = Some parts \<and>
               map_of parts ''mask_img_buffer'' = Some (''mask.png'', PNone, ''image/png'')))"
  using assms
  by (auto simp: TryOnJob_process_inputs_def dict_get_def Let_def split: sum.splits)

theorem tryon_null_mask_keeps_slot_witness:
  "process_inputs demo_libs TryOnJob demo_input =
     Inr (Some [(''model_img_buffer'', (''model.png'', PBytes [1, 2, 3], ''image/png'')),
                (''cloth_img_buffer'', (''cloth.png'', PBytes [4, 5], ''image/png'')),
                (''mask_img_buffer'', (''mask.png'', PNone, ''image/png''))],
          Some [(''generation_data'', ''category;'')])"
proof -
  have h: "demo_input ''mask_img'' = Some PNone"
          "demo_input ''category'' = Some (PStr ''upper_body'')"
          "demo_input ''model_img'' = Some (PBytes [1, 2, 3])"
          "demo_input ''cloth_img'' = Some (PBytes [4, 5])"
    by (simp_all add: demo_input_def)
  from tryon_null_mask_keeps_slot [OF h, of demo_libs] show ?thesis
    by (simp add: to_bytes_def demo_libs_def)
qed




text \<open>
  \<^bold>\<open>C8\<close>.  The health probe never raises, and it returns true exactly when the GET to
  \<^verbatim>\<open>{server_url}/health\<close> with timeout 5 completes with a response of status 200; every
  exception of the GET and every other status yields false.
\<close>

theorem check_health_true_iff_200:
  "check_health get self =
     Inr (\<exists>resp. get (server_url self @ ''/health'') 5 = Inr resp \<and> status_code resp = 200)"
  by (simp add: check_health_def split: sum.splits)

theorem check_health_true_iff_200_witness:
  "check_health healthy_get (demo_client MaskJob 600) = Inr True \<and>
   check_health refused_get (demo_client MaskJob 600) = Inr False"
  using check_health_true_iff_200 [of healthy_get "demo_client MaskJob 600"]
        check_health_true_iff_200 [of refused_get "demo_client MaskJob 600"]
  by (simp add: healthy_get_def refused_get_def demo_client_def ok_response_def)




text \<open>
  \<^bold>\<open>C10\<close> (as amended).  For \<^verbatim>\<open>retry \<le> 0\<close>, \<^verbatim>\<open>run_job\<close> still encodes its input: if
  encoding raises (a failed assertion, or a failure of the image conversion or of the
  serialiser), that error is raised; only if the whole of encoding succeeds does it return
  \<^verbatim>\<open>None\<close>; in both cases the trace is empty (no POST, no sleep).  In particular a
  missing required field raises an \<^verbatim>\<open>AssertionError\<close>.
\<close>

theorem run_job_nonpositive_retry:
  assumes "retry \<le> 0"
  shows "run_job L net self input_data retry =
           (case process_inputs L (job_class self) input_data of
              Inl e \<Rightarrow> (Inl e, [])
            | Inr p \<Rightarrow> (Inr PNone, [])) \<and>
         (\<forall>k \<in> set (required_fields (job_class self)). input_data k = None \<longrightarrow>
            (\<exists>msg. run_job L net self input_data retry = (Inl (AssertionError msg), [])))"
proof -
  have "\<And>p. run_job_loop L net self p retry 0 = (Inr PNone, [])"
    using assms by (simp add: loop_not_entered)
  then have first: "run_job L net self input_data retry =
           (case process_inputs L (job_class self) input_data of
              Inl e \<Rightarrow> (Inl e, [])
            | Inr p \<Rightarrow> (Inr PNone, []))"
    by (simp add: run_job_def split: sum.splits)
  have "\<exists>msg. run_job L net self input_data retry = (Inl (AssertionError msg), [])"
    if "k \<in> set (required_fields (job_class self))" "input_data k = None" for k
    using that process_inputs_missing [of k "job_class self" input_data L]
    by (auto simp: run_job_def)
  with first show ?thesis by blast
qed

theorem run_job_nonpositive_retry_witness:
  "run_job demo_libs (always (Inr (ok_response 200))) (demo_client MaskJob 600) demo_input 0 =
     (Inr PNone, []) \<and>
   (\<exists>msg. run_job demo_libs (always (Inr (ok_response 200))) (demo_client MaskJob 600)
                   Map.empty (- 1) = (Inl (AssertionError msg), []))"
proof -
  have h: "(0::int) \<le> 0" "(- 1::int) \<le> 0" by simp_all
  have k: "''category'' \<in> set (required_fields (job_class (demo_client MaskJob 600)))"
    by (simp add: demo_client_def)
  from run_job_nonpositive_retry [OF h(1), of demo_libs "always (Inr (ok_response 200))"
         "demo_client MaskJob 600" demo_input]
  have a: "run_job demo_libs (always (Inr (ok_response 200))) (demo_client MaskJob 600) demo_input 0 =
     (Inr PNone, [])"
    by (simp add: demo_client_def demo_encode)
  from run_job_nonpositive_retry [OF h(2), of demo_libs "always (Inr (ok_response 200))"
         "demo_client MaskJob 600" Map.empty] k
  have b: "\<exists>msg. run_job demo_libs (always (Inr (ok_response 200))) (demo_client MaskJob 600)
                   Map.empty (- 1) = (Inl (AssertionError msg), [])"
    by blast
  from a b show ?thesis by blast
qed

text \<open>
  The claim as first stated (once the required fields are present, \<^verbatim>\<open>run_job\<close> with
  \<^verbatim>\<open>retry \<le> 0\<close> returns \<^verbatim>\<open>None\<close> without raising) is false: a mask job whose input holds
  both required fields, with \<^verbatim>\<open>model_img\<close> bound to the integer 5, passes both assertions
  and then raises the \<^verbatim>\<open>ValueError\<close> of \<^verbatim>\<open>to_bytes\<close>, before the loop.
\<close>

theorem nonpositive_retry_conversion_error:
  "[''model_img'' \<mapsto> PInt 5, ''category'' \<mapsto> PStr ''x''] ''category'' = Some (PStr ''x'') \<and>
   [''model_img'' \<mapsto> PInt 5, ''category'' \<mapsto> PStr ''x''] ''model_img'' = Some (PInt 5) \<and>
   required_fields MaskJob = [''category'', ''model_img''] \<and>
   run_job demo_libs (always (Inr (ok_response 200))) (demo_client MaskJob 600)
           [''model_img'' \<mapsto> PInt 5, ''category'' \<mapsto> PStr ''x''] 0 =
     (Inl (ValueError ''Unsupported input type: <class 'int'>''), [])"
  by (simp add: run_job_def demo_client_def MaskJob_process_inputs_def dict_get_def to_bytes_def
                type_repr_def quoted_def)

end
